theory Spec2Isabelle
  imports Complex_Main
begin

text \<open>
  The recommendation engine of the AI media calculator: the hook
  \<open>useRecommendation\<close> of \<open>src/index.tsx\<close> with its helpers
  \<open>getQualityScore\<close>, \<open>getAverage\<close>, \<open>calculateTimeRequirement\<close>,
  \<open>calculateCostPerSecondUSD\<close> and \<open>calculate\<close>, and the catalogue
  \<open>DETAILED_PLATFORM_DATA\<close> it ranks. The user interface is not modelled.
\<close>

section \<open>JavaScript numbers\<close>

text \<open>
  The engine computes with JavaScript numbers. They are modelled as exact reals
  extended by the three special values the code can produce: \<open>Infinity\<close>,
  \<open>-Infinity\<close> and \<open>NaN\<close>. The operations below follow IEEE 754 on the special
  values (a nonzero number divided by zero is infinite, \<open>0/0\<close>, \<open>Infinity/Infinity\<close>,
  \<open>0 * Infinity\<close> and \<open>Infinity - Infinity\<close> are \<open>NaN\<close>, every comparison with
  \<open>NaN\<close> is false). Rounding, overflow and the sign of zero are not modelled: a
  finite result is the exact real, and zero counts as \<open>+0\<close>.
\<close>

datatype jsnum = Num real | PInf | NInf | NaN

instantiation jsnum :: "{plus, minus, times, inverse, ord}"
begin

fun plus_jsnum :: "jsnum \<Rightarrow> jsnum \<Rightarrow> jsnum" where
  "Num a + Num b = Num (a + b)"
| "NaN + _ = NaN"
| "_ + NaN = NaN"
| "PInf + NInf = NaN"
| "NInf + PInf = NaN"
| "PInf + _ = PInf"
| "_ + PInf = PInf"
| "NInf + _ = NInf"
| "_ + NInf = NInf"

fun minus_jsnum :: "jsnum \<Rightarrow> jsnum \<Rightarrow> jsnum" where
  "Num a - Num b = Num (a - b)"
| "NaN - _ = NaN"
| "_ - NaN = NaN"
| "PInf - PInf = NaN"
| "NInf - NInf = NaN"
| "PInf - _ = PInf"
| "_ - NInf = PInf"
| "NInf - _ = NInf"
| "_ - PInf = NInf"

fun times_jsnum :: "jsnum \<Rightarrow> jsnum \<Rightarrow> jsnum" where
  "Num a * Num b = Num (a * b)"
| "NaN * _ = NaN"
| "_ * NaN = NaN"
| "Num a * PInf = (if 0 < a then PInf else if a < 0 then NInf else NaN)"
| "Num a * NInf = (if 0 < a then NInf else if a < 0 then PInf else NaN)"
| "PInf * Num b = (if 0 < b then PInf else if b < 0 then NInf else NaN)"
| "NInf * Num b = (if 0 < b then NInf else if b < 0 then PInf else NaN)"
| "PInf * PInf = PInf"
| "PInf * NInf = NInf"
| "NInf * PInf = NInf"
| "NInf * NInf = PInf"

fun divide_jsnum :: "jsnum \<Rightarrow> jsnum \<Rightarrow> jsnum" where
  "Num a div Num b =
     (if b \<noteq> 0 then Num (a / b)
      else if 0 < a then PInf else if a < 0 then NInf else NaN)"
| "NaN div _ = NaN"
| "_ div NaN = NaN"
| "Num a div PInf = Num 0"
| "Num a div NInf = Num 0"
| "PInf div Num b = (if 0 \<le> b then PInf else NInf)"
| "NInf div Num b = (if 0 \<le> b then NInf else PInf)"
| "PInf div _ = NaN"
| "NInf div _ = NaN"

definition inverse_jsnum :: "jsnum \<Rightarrow> jsnum" where
  "inverse_jsnum x = Num 1 div x"

fun less_jsnum :: "jsnum \<Rightarrow> jsnum \<Rightarrow> bool" where
  "Num a < Num b \<longleftrightarrow> a < b"
| "NaN < _ \<longleftrightarrow> False"
| "_ < NaN \<longleftrightarrow> False"
| "_ < NInf \<longleftrightarrow> False"
| "PInf < _ \<longleftrightarrow> False"
| "NInf < _ \<longleftrightarrow> True"
| "_ < PInf \<longleftrightarrow> True"

fun less_eq_jsnum :: "jsnum \<Rightarrow> jsnum \<Rightarrow> bool" where
  "Num a \<le> Num b \<longleftrightarrow> a \<le> b"
| "NaN \<le> _ \<longleftrightarrow> False"
| "_ \<le> NaN \<longleftrightarrow> False"
| "NInf \<le> _ \<longleftrightarrow> True"
| "_ \<le> PInf \<longleftrightarrow> True"
| "_ \<le> NInf \<longleftrightarrow> False"
| "PInf \<le> _ \<longleftrightarrow> False"

instance ..

end

text \<open>\<open>Math.ceil\<close>, \<open>Math.floor\<close>, \<open>Math.min\<close> and \<open>Math.max\<close>.\<close>

fun Math_ceil :: "jsnum \<Rightarrow> jsnum" where
  "Math_ceil (Num a) = Num (of_int \<lceil>a\<rceil>)"
| "Math_ceil x = x"

fun Math_floor :: "jsnum \<Rightarrow> jsnum" where
  "Math_floor (Num a) = Num (of_int \<lfloor>a\<rfloor>)"
| "Math_floor x = x"

fun Math_min :: "jsnum \<Rightarrow> jsnum \<Rightarrow> jsnum" where
  "Math_min NaN _ = NaN"
| "Math_min _ NaN = NaN"
| "Math_min a b = (if a \<le> b then a else b)"

fun Math_max :: "jsnum \<Rightarrow> jsnum \<Rightarrow> jsnum" where
  "Math_max NaN _ = NaN"
| "Math_max _ NaN = NaN"
| "Math_max a b = (if a \<le> b then b else a)"

section \<open>Strings\<close>

text \<open>\<open>String.prototype.includes\<close>: the second string occurs in the first.\<close>

fun startsWith :: "string \<Rightarrow> string \<Rightarrow> bool" where
  "startsWith _ [] = True"
| "startsWith [] (_ # _) = False"
| "startsWith (c # cs) (d # ds) = (c = d \<and> startsWith cs ds)"

fun includes_str :: "string \<Rightarrow> string \<Rightarrow> bool" where
  "includes_str [] sub = (sub = [])"
| "includes_str (c # cs) sub = (startsWith (c # cs) sub \<or> includes_str cs sub)"

text \<open>
  The number inside a template literal. The engine only renders \<open>accountsNeeded\<close>,
  which is \<open>1\<close> or a result of \<open>Math.ceil\<close>: an integer or a special value.
  Integers are written in decimal (JavaScript switches to exponent notation from
  \<open>10^21\<close> on, which is not modelled).
\<close>

fun digits :: "nat \<Rightarrow> string" where
  "digits n =
     (if n < 10 then [''0123456789'' ! n]
      else digits (n div 10) @ [''0123456789'' ! (n mod 10)])"

fun numToString :: "jsnum \<Rightarrow> string" where
  "numToString NaN = ''NaN''"
| "numToString PInf = ''Infinity''"
| "numToString NInf = ''-Infinity''"
| "numToString (Num a) =
     (if a < 0 then ''-'' @ digits (nat \<lfloor>- a\<rfloor>) else digits (nat \<lfloor>a\<rfloor>))"

section \<open>Data model\<close>

datatype CalculationMode = cost_mode | duration_mode

datatype Resolution = R720p | R1080p | R1080p_plus | R4K

datatype CostUnit =
  cu_credits | cu_tokens | cu_compute_seconds | cu_clips | cu_per_second | cu_ratio

datatype QuotaUnit =
  qu_credits | qu_tokens | qu_compute_seconds | qu_clips | qu_unlimited

datatype Feature = Motion_Brush | Keyframe_Editor | Storyboard_Export | Audio_Video_Sync

text \<open>\<open>cost: number | [number, number]\<close>\<close>

datatype Cost = Single real | Range real real

datatype ApiAvailable = Yes | No | Limited | Enterprise

datatype Level = beginner | intermediate | expert

datatype AudioNeeds = audio_none | audio_basic | audio_advanced

text \<open>
  The fields of the catalogue and of the user's inputs are finite numbers (numeric
  literals in the source, \<open>Number(value)\<close> of a numeric form field), hence reals; the
  values the engine computes from them are \<^typ>\<open>jsnum\<close>. An optional field is an
  \<open>option\<close>.
\<close>

record OptionRec =
  modelId :: string
  modelName :: string
  maxDurationSec :: real
  resolution :: Resolution
  audio :: bool
  costUnit :: CostUnit
  cost :: Cost
  features :: "Feature list option"

record Plan =
  planName :: string
  monthlyCost :: real
  quota :: real
  quotaUnit :: QuotaUnit
  maxParallel :: real
  maxParallelAPI :: "real option"
  avgTimePerClipMin :: real
  options :: "OptionRec list"

record Platform =
  platformName :: string
  apiAvailable :: ApiAvailable
  setupDays :: real
  techLevel :: Level
  plans :: "Plan list"

record RecommendationInputs =
  calcMode :: CalculationMode
  deadline :: real
  duration :: real
  budget :: real
  costQuality :: real
  speedCost :: real
  audioNeeds :: AudioNeeds
  expertise :: Level
  enableComparison :: bool
  traditionalCost :: real
  traditionalTime :: real

record ScoredPlatform =
  sp_platformName :: string
  sp_planName :: string
  sp_option :: OptionRec
  score :: jsnum
  totalCost :: jsnum
  rawGenerationTimeDays :: jsnum
  costPerSecondUSD :: jsnum
  qualityScore :: real
  feasible :: bool
  reasons :: "string list"
  accountsNeeded :: jsnum
  sp_apiAvailable :: ApiAvailable
  achievableDuration :: jsnum
  plansAffordable :: "jsnum option"
  sp_monthlyCost :: real


record TimeRequirement =
  timeDays :: jsnum
  tr_accountsNeeded :: jsnum

text \<open>
  What the mode-specific half of the loop body leaves in \<open>result\<close> and \<open>reasons\<close>.
\<close>

record ModeResult =
  mr_achievableDuration :: jsnum
  mr_totalCost :: jsnum
  mr_rawGenerationTimeDays :: jsnum
  mr_accountsNeeded :: jsnum
  mr_plansAffordable :: "jsnum option"
  mr_reasons :: "string list"

text \<open>What duration mode derives from the budget alone.\<close>

record BudgetUse =
  totalVideoSeconds :: jsnum
  bu_totalCost :: jsnum
  bu_plansAffordable :: "jsnum option"

text \<open>The two values \<open>calculate\<close> stores, which the hook returns.\<close>

record Recommendation =
  primaryRecommendation :: "ScoredPlatform option"
  sortedPlatforms :: "ScoredPlatform list"

section \<open>The catalogue\<close>

definition Kling_AI :: Platform where
  "Kling_AI =
    \<lparr>platformName = ''Kling AI'', apiAvailable = Limited, setupDays = 0.5, techLevel = beginner,
     plans =
      [\<lparr>planName = ''Standard'', monthlyCost = 10, quota = 660, quotaUnit = qu_credits,
       maxParallel = 8, maxParallelAPI = None, avgTimePerClipMin = 1.5,
       options =
        [\<lparr>modelId = ''kling-std-5s'', modelName = ''Standard 5s'', maxDurationSec = 5,
          resolution = R1080p, audio = False, costUnit = cu_credits, cost = Single 10,
          features = Some [Motion_Brush]\<rparr>,
         \<lparr>modelId = ''kling-std-10s'', modelName = ''Standard 10s'', maxDurationSec = 10,
          resolution = R1080p, audio = False, costUnit = cu_credits, cost = Single 20,
          features = Some [Motion_Brush]\<rparr>]\<rparr>,
      \<lparr>planName = ''Pro'', monthlyCost = 37, quota = 3000, quotaUnit = qu_credits,
       maxParallel = 8, maxParallelAPI = None, avgTimePerClipMin = 1.2,
       options =
        [\<lparr>modelId = ''kling-pro-5s'', modelName = ''Professional (High-Quality) 5s'', maxDurationSec = 5,
          resolution = R1080p_plus, audio = True, costUnit = cu_credits, cost = Single 35,
          features = Some [Motion_Brush, Keyframe_Editor]\<rparr>,
         \<lparr>modelId = ''kling-pro-10s'', modelName = ''Professional (High-Quality) 10s'', maxDurationSec = 10,
          resolution = R1080p_plus, audio = True, costUnit = cu_credits, cost = Single 70,
          features = Some [Motion_Brush, Keyframe_Editor]\<rparr>]\<rparr>,
      \<lparr>planName = ''Premier'', monthlyCost = 92, quota = 8000, quotaUnit = qu_credits,
       maxParallel = 8, maxParallelAPI = None, avgTimePerClipMin = 1.0,
       options =
        [\<lparr>modelId = ''kling-prm-5s'', modelName = ''Professional (High-Quality) 5s'', maxDurationSec = 5,
          resolution = R1080p_plus, audio = True, costUnit = cu_credits, cost = Single 35,
          features = Some [Motion_Brush, Keyframe_Editor]\<rparr>,
         \<lparr>modelId = ''kling-prm-10s'', modelName = ''Professional (High-Quality) 10s'', maxDurationSec = 10,
          resolution = R1080p_plus, audio = True, costUnit = cu_credits, cost = Single 70,
          features = Some [Motion_Brush, Keyframe_Editor]\<rparr>]\<rparr>]\<rparr>"

definition Leonardo_AI_Web_App :: Platform where
  "Leonardo_AI_Web_App =
    \<lparr>platformName = ''Leonardo AI (Web App)'', apiAvailable = No, setupDays = 0.5, techLevel = beginner,
     plans =
      [\<lparr>planName = ''Apprentice'', monthlyCost = 10, quota = 8500, quotaUnit = qu_tokens,
       maxParallel = 5, maxParallelAPI = None, avgTimePerClipMin = 1.5,
       options =
        [\<lparr>modelId = ''leo-web-m1-a'', modelName = ''Motion 1.0'', maxDurationSec = 3,
          resolution = R720p, audio = False, costUnit = cu_tokens, cost = Single 45,
          features = None\<rparr>,
         \<lparr>modelId = ''leo-web-m2-a'', modelName = ''Motion 2.0'', maxDurationSec = 5,
          resolution = R1080p, audio = False, costUnit = cu_tokens, cost = Single 200,
          features = None\<rparr>]\<rparr>,
      \<lparr>planName = ''Artisan Unlimited'', monthlyCost = 24, quota = 25500, quotaUnit = qu_tokens,
       maxParallel = 5, maxParallelAPI = None, avgTimePerClipMin = 1.2,
       options =
        [\<lparr>modelId = ''leo-web-m1-art'', modelName = ''Motion 1.0'', maxDurationSec = 3,
          resolution = R720p, audio = False, costUnit = cu_tokens, cost = Single 45,
          features = None\<rparr>,
         \<lparr>modelId = ''leo-web-m2-art'', modelName = ''Motion 2.0'', maxDurationSec = 5,
          resolution = R1080p, audio = False, costUnit = cu_tokens, cost = Single 200,
          features = None\<rparr>]\<rparr>,
      \<lparr>planName = ''Maestro Unlimited'', monthlyCost = 48, quota = 60000, quotaUnit = qu_tokens,
       maxParallel = 5, maxParallelAPI = None, avgTimePerClipMin = 1.0,
       options =
        [\<lparr>modelId = ''leo-web-m1-m'', modelName = ''Motion 1.0'', maxDurationSec = 3,
          resolution = R720p, audio = False, costUnit = cu_tokens, cost = Single 45,
          features = None\<rparr>,
         \<lparr>modelId = ''leo-web-m2-m'', modelName = ''Motion 2.0'', maxDurationSec = 5,
          resolution = R1080p, audio = False, costUnit = cu_tokens, cost = Single 200,
          features = None\<rparr>]\<rparr>]\<rparr>"

definition Leonardo_AI_API :: Platform where
  "Leonardo_AI_API =
    \<lparr>platformName = ''Leonardo AI (API)'', apiAvailable = Yes, setupDays = 0.5, techLevel = expert,
     plans =
      [\<lparr>planName = ''API Basic'', monthlyCost = 9, quota = 3500, quotaUnit = qu_tokens,
       maxParallel = 5, maxParallelAPI = Some 5, avgTimePerClipMin = 1.5,
       options =
        [\<lparr>modelId = ''leo-api-motion-1-b'', modelName = ''Motion 1.0'', maxDurationSec = 3,
          resolution = R720p, audio = False, costUnit = cu_tokens, cost = Single 45,
          features = None\<rparr>,
         \<lparr>modelId = ''leo-api-motion-2-b'', modelName = ''Motion 2.0'', maxDurationSec = 5,
          resolution = R1080p, audio = False, costUnit = cu_tokens, cost = Single 200,
          features = None\<rparr>]\<rparr>,
      \<lparr>planName = ''API Standard'', monthlyCost = 49, quota = 25000, quotaUnit = qu_tokens,
       maxParallel = 5, maxParallelAPI = Some 10, avgTimePerClipMin = 1.2,
       options =
        [\<lparr>modelId = ''leo-api-motion-1-s'', modelName = ''Motion 1.0'', maxDurationSec = 3,
          resolution = R720p, audio = False, costUnit = cu_tokens, cost = Single 45,
          features = None\<rparr>,
         \<lparr>modelId = ''leo-api-motion-2-s'', modelName = ''Motion 2.0'', maxDurationSec = 5,
          resolution = R1080p, audio = False, costUnit = cu_tokens, cost = Single 200,
          features = None\<rparr>,
         \<lparr>modelId = ''veo-3-leo-std'', modelName = ''Veo 3 (via API)'', maxDurationSec = 8,
          resolution = R720p, audio = False, costUnit = cu_tokens, cost = Single 2500,
          features = None\<rparr>]\<rparr>,
      \<lparr>planName = ''API Pro'', monthlyCost = 299, quota = 100000, quotaUnit = qu_tokens,
       maxParallel = 5, maxParallelAPI = Some 20, avgTimePerClipMin = 1.0,
       options =
        [\<lparr>modelId = ''leo-api-motion-1-p'', modelName = ''Motion 1.0'', maxDurationSec = 3,
          resolution = R720p, audio = False, costUnit = cu_tokens, cost = Single 45,
          features = None\<rparr>,
         \<lparr>modelId = ''leo-api-motion-2-p'', modelName = ''Motion 2.0'', maxDurationSec = 5,
          resolution = R1080p, audio = False, costUnit = cu_tokens, cost = Single 200,
          features = None\<rparr>,
         \<lparr>modelId = ''veo-3-leo-pro'', modelName = ''Veo 3 (via API)'', maxDurationSec = 8,
          resolution = R720p, audio = False, costUnit = cu_tokens, cost = Single 2500,
          features = None\<rparr>]\<rparr>]\<rparr>"

definition LTX_Studio :: Platform where
  "LTX_Studio =
    \<lparr>platformName = ''LTX Studio'', apiAvailable = Enterprise, setupDays = 1, techLevel = intermediate,
     plans =
      [\<lparr>planName = ''Lite (Monthly)'', monthlyCost = 15, quota = 8640, quotaUnit = qu_compute_seconds,
       maxParallel = 1, maxParallelAPI = None, avgTimePerClipMin = 4,
       options =
        [\<lparr>modelId = ''ltx-lite-m'', modelName = ''Motion Standard'', maxDurationSec = 15,
          resolution = R1080p_plus, audio = True, costUnit = cu_ratio, cost = Single 1,
          features = None\<rparr>]\<rparr>,
      \<lparr>planName = ''Lite (Annual)'', monthlyCost = 12, quota = 8640, quotaUnit = qu_compute_seconds,
       maxParallel = 1, maxParallelAPI = None, avgTimePerClipMin = 4,
       options =
        [\<lparr>modelId = ''ltx-lite-y'', modelName = ''Motion Standard'', maxDurationSec = 15,
          resolution = R1080p_plus, audio = True, costUnit = cu_ratio, cost = Single 1,
          features = None\<rparr>]\<rparr>,
      \<lparr>planName = ''Standard (Monthly)'', monthlyCost = 35, quota = 28800, quotaUnit = qu_compute_seconds,
       maxParallel = 1, maxParallelAPI = None, avgTimePerClipMin = 3.8,
       options =
        [\<lparr>modelId = ''ltx-std-m'', modelName = ''Motion Standard (Veo 2)'', maxDurationSec = 15,
          resolution = R1080p_plus, audio = True, costUnit = cu_ratio, cost = Single 1,
          features = None\<rparr>]\<rparr>,
      \<lparr>planName = ''Standard (Annual)'', monthlyCost = 28, quota = 28800, quotaUnit = qu_compute_seconds,
       maxParallel = 1, maxParallelAPI = None, avgTimePerClipMin = 3.8,
       options =
        [\<lparr>modelId = ''ltx-std-y'', modelName = ''Motion Standard (Veo 2)'', maxDurationSec = 15,
          resolution = R1080p_plus, audio = True, costUnit = cu_ratio, cost = Single 1,
          features = None\<rparr>]\<rparr>,
      \<lparr>planName = ''Pro (Monthly)'', monthlyCost = 125, quota = 90000, quotaUnit = qu_compute_seconds,
       maxParallel = 10, maxParallelAPI = None, avgTimePerClipMin = 3,
       options =
        [\<lparr>modelId = ''ltx-pro-m'', modelName = ''Pipeline Full (Veo 3)'', maxDurationSec = 15,
          resolution = R1080p_plus, audio = True, costUnit = cu_ratio, cost = Single 1.5,
          features = Some [Storyboard_Export]\<rparr>]\<rparr>,
      \<lparr>planName = ''Pro (Annual)'', monthlyCost = 100, quota = 90000, quotaUnit = qu_compute_seconds,
       maxParallel = 10, maxParallelAPI = None, avgTimePerClipMin = 3,
       options =
        [\<lparr>modelId = ''ltx-pro-y'', modelName = ''Pipeline Full (Veo 3)'', maxDurationSec = 15,
          resolution = R1080p_plus, audio = True, costUnit = cu_ratio, cost = Single 1.5,
          features = Some [Storyboard_Export]\<rparr>]\<rparr>,
      \<lparr>planName = ''Enterprise'', monthlyCost = 500, quota = 500000, quotaUnit = qu_compute_seconds,
       maxParallel = 20, maxParallelAPI = None, avgTimePerClipMin = 2.5,
       options =
        [\<lparr>modelId = ''ltx-ent'', modelName = ''Pipeline Full (Veo 3)'', maxDurationSec = 15,
          resolution = R4K, audio = True, costUnit = cu_ratio, cost = Single 2,
          features = Some [Storyboard_Export]\<rparr>]\<rparr>]\<rparr>"

definition OpenAI_Sora :: Platform where
  "OpenAI_Sora =
    \<lparr>platformName = ''OpenAI Sora'', apiAvailable = Limited, setupDays = 0.5, techLevel = beginner,
     plans =
      [\<lparr>planName = ''Plus'', monthlyCost = 20, quota = 0, quotaUnit = qu_unlimited,
       maxParallel = 2, maxParallelAPI = None, avgTimePerClipMin = 1.5,
       options =
        [\<lparr>modelId = ''sora-plus-10'', modelName = ''Standard 10s'', maxDurationSec = 10,
          resolution = R720p, audio = False, costUnit = cu_clips, cost = Single 0,
          features = None\<rparr>]\<rparr>,
      \<lparr>planName = ''Pro'', monthlyCost = 200, quota = 0, quotaUnit = qu_unlimited,
       maxParallel = 5, maxParallelAPI = Some 5, avgTimePerClipMin = 0.8,
       options =
        [\<lparr>modelId = ''sora-pro-20'', modelName = ''Enhanced Quality 20s'', maxDurationSec = 20,
          resolution = R1080p, audio = False, costUnit = cu_clips, cost = Single 0,
          features = None\<rparr>]\<rparr>]\<rparr>"

definition Google_Veo :: Platform where
  "Google_Veo =
    \<lparr>platformName = ''Google Veo'', apiAvailable = Yes, setupDays = 1, techLevel = expert,
     plans =
      [\<lparr>planName = ''Ultra Subscription'', monthlyCost = 250, quota = 12500, quotaUnit = qu_credits,
       maxParallel = 5, maxParallelAPI = None, avgTimePerClipMin = 0.8,
       options =
        [\<lparr>modelId = ''veo-ultra-fast'', modelName = ''Veo 3 Fast'', maxDurationSec = 8,
          resolution = R1080p, audio = True, costUnit = cu_credits, cost = Single 20,
          features = Some [Audio_Video_Sync]\<rparr>,
         \<lparr>modelId = ''veo-ultra-qual'', modelName = ''Veo 3 Quality'', maxDurationSec = 8,
          resolution = R1080p, audio = True, costUnit = cu_credits, cost = Single 100,
          features = Some [Audio_Video_Sync]\<rparr>]\<rparr>,
      \<lparr>planName = ''Vertex AI API'', monthlyCost = 0, quota = 0, quotaUnit = qu_unlimited,
       maxParallel = 1, maxParallelAPI = Some 20, avgTimePerClipMin = 1.8,
       options =
        [\<lparr>modelId = ''veo-api-2.0'', modelName = ''Veo 2.0 GA'', maxDurationSec = 8,
          resolution = R720p, audio = False, costUnit = cu_per_second, cost = Single 0.5,
          features = None\<rparr>,
         \<lparr>modelId = ''veo-api-3.0'', modelName = ''Veo 3.0 Preview'', maxDurationSec = 8,
          resolution = R720p, audio = False, costUnit = cu_per_second, cost = Single 0.5,
          features = None\<rparr>,
         \<lparr>modelId = ''veo-api-3.0-audio'', modelName = ''Veo 3.0 with Audio'', maxDurationSec = 8,
          resolution = R720p, audio = True, costUnit = cu_per_second, cost = Single 0.75,
          features = Some [Audio_Video_Sync]\<rparr>]\<rparr>]\<rparr>"

definition DETAILED_PLATFORM_DATA :: "Platform list" where
  "DETAILED_PLATFORM_DATA =
    [Kling_AI, Leonardo_AI_Web_App, Leonardo_AI_API, LTX_Studio, OpenAI_Sora, Google_Veo]"

section \<open>Quality score\<close>

definition resolutionScores :: "Resolution \<Rightarrow> real" where
  "resolutionScores r =
     (case r of R720p \<Rightarrow> 7 | R1080p \<Rightarrow> 8 | R1080p_plus \<Rightarrow> 9 | R4K \<Rightarrow> 10)"

definition planHierarchy :: "(string \<times> real) list" where
  "planHierarchy =
    [(''Personal'', 0), (''Lite (Annual)'', 0), (''Lite (Monthly)'', 0), (''Plus'', 0),
     (''Apprentice'', 0), (''Standard (Annual)'', 0.5), (''Standard (Monthly)'', 0.5),
     (''Artisan Unlimited'', 0.5), (''API Basic'', 0.5), (''Pro (Annual)'', 1),
     (''Pro (Monthly)'', 1), (''Maestro Unlimited'', 1), (''API Standard'', 1),
     (''Premier'', 1.5), (''Team'', 1.5), (''API Pro'', 1.5), (''Vertex AI API'', 2),
     (''Ultra Subscription'', 2), (''Enterprise'', 2)]"

definition platformReputation :: "(string \<times> real) list" where
  "platformReputation =
    [(''Google Veo'', 1.5), (''OpenAI Sora'', 1), (''LTX Studio'', 0.5),
     (''Leonardo AI (API)'', 0), (''Leonardo AI (Web App)'', 0), (''Kling AI'', - 0.5)]"

text \<open>
  \<open>table[key] || 0\<close>: the entry of the key, and 0 for a key the table does not
  have. The tables are object literals, so a key that names a property inherited from
  \<open>Object.prototype\<close> reads a function or an object instead, the sum becomes a
  string and \<open>Math.min\<close> returns \<open>NaN\<close>. This lookup and the quality score
  below are the source's for every other key; the statements about the quality score
  are made for names outside \<open>inheritedKeys\<close>. No name of the catalogue is one
  of them.
\<close>

definition inheritedKeys :: "string list" where
  "inheritedKeys =
    [''constructor'', ''hasOwnProperty'', ''isPrototypeOf'', ''propertyIsEnumerable'',
     ''toLocaleString'', ''toString'', ''valueOf'', ''__proto__'', ''__defineGetter__'',
     ''__defineSetter__'', ''__lookupGetter__'', ''__lookupSetter__'']"

definition lookupOr0 :: "(string \<times> real) list \<Rightarrow> string \<Rightarrow> real" where
  "lookupOr0 table key = (case map_of table key of Some v \<Rightarrow> v | None \<Rightarrow> 0)"

text \<open>\<open>option.features?.includes(f)\<close>\<close>

definition hasFeature :: "OptionRec \<Rightarrow> Feature \<Rightarrow> bool" where
  "hasFeature opt f = (case features opt of None \<Rightarrow> False | Some fs \<Rightarrow> f \<in> set fs)"

text \<open>
  The resolution is one of the four values of its type, so the fallback \<open>|| 6\<close> of
  the source is never taken.
\<close>

definition getQualityScore :: "OptionRec \<Rightarrow> Plan \<Rightarrow> Platform \<Rightarrow> real" where
  "getQualityScore opt plan platform =
    (let score = 0;
         score = score + resolutionScores (resolution opt);
         score = (if audio opt then score + 0.5 else score);
         score = score + lookupOr0 planHierarchy (planName plan);
         score = (if hasFeature opt Storyboard_Export then score + 1 else score);
         score = (if hasFeature opt Keyframe_Editor then score + 0.5 else score);
         score = (if hasFeature opt Audio_Video_Sync then score + 1 else score);
         score = score + lookupOr0 platformReputation (platformName platform)
     in min 10 score)"

section \<open>Unit conversion and time estimation\<close>

fun getAverage :: "Cost \<Rightarrow> real" where
  "getAverage (Range lo hi) = (lo + hi) / 2"
| "getAverage (Single v) = v"

definition canUseAPI :: "Platform \<Rightarrow> Level \<Rightarrow> bool" where
  "canUseAPI platform e \<longleftrightarrow>
     (apiAvailable platform = Yes \<or> apiAvailable platform = Limited
        \<or> apiAvailable platform = Enterprise)
     \<and> (e = expert \<or> e = intermediate)"

text \<open>
  \<open>canUseAPI && plan.maxParallelAPI ? plan.maxParallelAPI : plan.maxParallel\<close>: an
  absent cap and a cap of 0 are both falsy.
\<close>

definition effectiveMaxParallel :: "Platform \<Rightarrow> Plan \<Rightarrow> Level \<Rightarrow> real" where
  "effectiveMaxParallel platform plan e =
     (case maxParallelAPI plan of
        None \<Rightarrow> maxParallel plan
      | Some api \<Rightarrow> if canUseAPI platform e \<and> api \<noteq> 0 then api else maxParallel plan)"

definition calculateTimeRequirement ::
  "jsnum \<Rightarrow> OptionRec \<Rightarrow> Plan \<Rightarrow> Platform \<Rightarrow> jsnum \<Rightarrow> Level \<Rightarrow> TimeRequirement" where
  "calculateTimeRequirement durationMinutes opt plan platform deadline' e =
    (if durationMinutes \<le> Num 0 then \<lparr>timeDays = Num 0, tr_accountsNeeded = Num 1\<rparr>
     else
       let clipsNeeded = Math_ceil (durationMinutes * Num 60 / Num (maxDurationSec opt));
           totalWorkloadMinutes = clipsNeeded * Num (avgTimePerClipMin plan);
           totalWorkloadHours = totalWorkloadMinutes / Num 60;
           singleAccountTimeHours =
             totalWorkloadHours / Num (effectiveMaxParallel platform plan e);
           singleAccountTimeDays = singleAccountTimeHours / Num 8 + Num (setupDays platform);
           accountsNeeded =
             (if deadline' < singleAccountTimeDays
              then Math_ceil (singleAccountTimeDays / deadline') else Num 1);
           actualTimeDays = singleAccountTimeDays / accountsNeeded
       in \<lparr>timeDays = actualTimeDays, tr_accountsNeeded = accountsNeeded\<rparr>)"

definition calculateCostPerSecondUSD :: "OptionRec \<Rightarrow> Plan \<Rightarrow> jsnum" where
  "calculateCostPerSecondUSD opt plan =
    (let avgCostPerUnit = getAverage (cost opt);
         durationSeconds = maxDurationSec opt
     in if costUnit opt = cu_per_second then Num avgCostPerUnit
        else if quotaUnit plan = qu_unlimited \<or> quota plan = 0 then PInf
        else
          let costPerUnitUSD = Num (monthlyCost plan) / Num (quota plan)
          in case costUnit opt of
               cu_credits \<Rightarrow> (Num avgCostPerUnit * costPerUnitUSD) / Num durationSeconds
             | cu_tokens \<Rightarrow> (Num avgCostPerUnit * costPerUnitUSD) / Num durationSeconds
             | cu_clips \<Rightarrow> (Num avgCostPerUnit * costPerUnitUSD) / Num durationSeconds
             | cu_ratio \<Rightarrow> Num avgCostPerUnit * costPerUnitUSD
             | _ \<Rightarrow> PInf)"

subsection \<open>Cost mode: the cost of a target duration\<close>

definition clipsNeeded :: "real \<Rightarrow> OptionRec \<Rightarrow> jsnum" where
  "clipsNeeded dur opt = Math_ceil (Num dur * Num 60 / Num (maxDurationSec opt))"

definition totalUnitsNeeded :: "real \<Rightarrow> OptionRec \<Rightarrow> jsnum" where
  "totalUnitsNeeded dur opt =
     (if costUnit opt = cu_ratio then (Num dur * Num 60) * Num (getAverage (cost opt))
      else clipsNeeded dur opt * Num (getAverage (cost opt)))"

definition plansNeeded :: "real \<Rightarrow> Plan \<Rightarrow> OptionRec \<Rightarrow> jsnum" where
  "plansNeeded dur plan opt = Math_ceil (totalUnitsNeeded dur opt / Num (quota plan))"

definition costModeTotalCost :: "real \<Rightarrow> Plan \<Rightarrow> OptionRec \<Rightarrow> jsnum" where
  "costModeTotalCost dur plan opt =
     (if quotaUnit plan = qu_unlimited then
        (if costUnit opt = cu_per_second
         then Num dur * Num 60 * Num (getAverage (cost opt))
         else Num (monthlyCost plan))
      else
        (if 0 < quota plan then plansNeeded dur plan opt * Num (monthlyCost plan)
         else PInf))"

definition costModeResult ::
  "RecommendationInputs \<Rightarrow> Platform \<Rightarrow> Plan \<Rightarrow> OptionRec \<Rightarrow> ModeResult" where
  "costModeResult inp platform plan opt =
    (let total = costModeTotalCost (duration inp) plan opt;
         timeReq = calculateTimeRequirement (Num (duration inp)) opt plan platform
                     (Num (deadline inp)) (expertise inp);
         reasons1 =
           (if Num (deadline inp) < timeDays timeReq
            then [''Requires '' @ numToString (tr_accountsNeeded timeReq) @ '' accounts'']
            else []);
         reasons2 =
           (if Num (budget inp) < total then reasons1 @ [''Over budget''] else reasons1)
     in \<lparr>mr_achievableDuration = Num (duration inp), mr_totalCost = total,
         mr_rawGenerationTimeDays = timeDays timeReq,
         mr_accountsNeeded = tr_accountsNeeded timeReq,
         mr_plansAffordable = None, mr_reasons = reasons2\<rparr>)"

subsection \<open>Duration mode: the duration a budget buys\<close>

definition budgetUse :: "real \<Rightarrow> Plan \<Rightarrow> OptionRec \<Rightarrow> BudgetUse" where
  "budgetUse budget' plan opt =
    (let unchanged =
           \<lparr>totalVideoSeconds = Num 0, bu_totalCost = Num budget', bu_plansAffordable = None\<rparr>
     in if quotaUnit plan = qu_unlimited then
          (if costUnit opt = cu_per_second then
             (if 0 < budget' \<and> 0 < getAverage (cost opt)
              then unchanged\<lparr>totalVideoSeconds := Num budget' / Num (getAverage (cost opt)),
                              bu_totalCost := Num budget'\<rparr>
              else unchanged)
           else
             (if monthlyCost plan \<le> budget'
              then unchanged\<lparr>totalVideoSeconds := PInf, bu_totalCost := Num (monthlyCost plan)\<rparr>
              else unchanged\<lparr>totalVideoSeconds := Num 0\<rparr>))
        else
          (if 0 < monthlyCost plan then
             (let plansAffordable = Math_floor (Num budget' / Num (monthlyCost plan))
              in if Num 0 < plansAffordable then
                   (let totalQuota = plansAffordable * Num (quota plan);
                        costPerClip = getAverage (cost opt);
                        paid = unchanged\<lparr>bu_plansAffordable := Some plansAffordable,
                                 bu_totalCost := plansAffordable * Num (monthlyCost plan)\<rparr>
                    in if 0 < costPerClip then
                         (if costUnit opt = cu_ratio
                          then paid\<lparr>totalVideoSeconds := totalQuota / Num costPerClip\<rparr>
                          else paid\<lparr>totalVideoSeconds :=
                                 (totalQuota / Num costPerClip) * Num (maxDurationSec opt)\<rparr>)
                       else paid)
                 else unchanged)
           else unchanged))"

definition maxClipsInDeadline :: "real \<Rightarrow> Platform \<Rightarrow> Plan \<Rightarrow> Level \<Rightarrow> jsnum" where
  "maxClipsInDeadline deadline' platform plan e =
     (Num deadline' * Num 8 * Num 60) / Num (avgTimePerClipMin plan)
       * Num (effectiveMaxParallel platform plan e)"

definition maxDurationFromTime ::
  "real \<Rightarrow> Platform \<Rightarrow> Plan \<Rightarrow> OptionRec \<Rightarrow> Level \<Rightarrow> jsnum" where
  "maxDurationFromTime deadline' platform plan opt e =
     (maxClipsInDeadline deadline' platform plan e * Num (maxDurationSec opt)) / Num 60"

definition durationModeResult ::
  "RecommendationInputs \<Rightarrow> Platform \<Rightarrow> Plan \<Rightarrow> OptionRec \<Rightarrow> ModeResult" where
  "durationModeResult inp platform plan opt =
    (let use = budgetUse (budget inp) plan opt;
         achievable =
           Math_min (totalVideoSeconds use / Num 60)
             (maxDurationFromTime (deadline inp) platform plan opt (expertise inp));
         timeReq = calculateTimeRequirement achievable opt plan platform
                     (Num (deadline inp)) (expertise inp);
         reasons1 =
           (if Num (deadline inp) < timeDays timeReq \<and> Num 0 < achievable
            then [''Challenging deadline: needs '' @ numToString (tr_accountsNeeded timeReq)
                    @ '' accounts'']
            else [])
     in \<lparr>mr_achievableDuration = achievable, mr_totalCost = bu_totalCost use,
         mr_rawGenerationTimeDays = timeDays timeReq,
         mr_accountsNeeded = tr_accountsNeeded timeReq,
         mr_plansAffordable = bu_plansAffordable use, mr_reasons = reasons1\<rparr>)"

section \<open>Recommendation engine\<close>

definition isFeasible :: "string list \<Rightarrow> bool" where
  "isFeasible rs \<longleftrightarrow>
     length rs = 0 \<or> (length rs = 1 \<and> includes_str (rs ! 0) ''accounts'')"

definition expertiseMatch :: "Level \<Rightarrow> Level \<Rightarrow> real" where
  "expertiseMatch user tech =
     (case user of
        beginner \<Rightarrow> (case tech of beginner \<Rightarrow> 20 | intermediate \<Rightarrow> 5 | expert \<Rightarrow> - 10)
      | intermediate \<Rightarrow> (case tech of beginner \<Rightarrow> 10 | intermediate \<Rightarrow> 20 | expert \<Rightarrow> 10)
      | expert \<Rightarrow> (case tech of beginner \<Rightarrow> - 5 | intermediate \<Rightarrow> 10 | expert \<Rightarrow> 20))"

text \<open>
  The parallelism that enters the score: the API cap only when the platform's API is
  \<open>Yes\<close> and the user is not a beginner.
\<close>

definition scoringMaxParallel :: "Platform \<Rightarrow> Plan \<Rightarrow> Level \<Rightarrow> real" where
  "scoringMaxParallel platform plan e =
     (case maxParallelAPI plan of
        None \<Rightarrow> maxParallel plan
      | Some api \<Rightarrow>
          if apiAvailable platform = Yes \<and> e \<noteq> beginner \<and> api \<noteq> 0 then api
          else maxParallel plan)"

definition costScore :: "jsnum \<Rightarrow> jsnum" where
  "costScore costPerSecond =
     (if Num 0 < costPerSecond \<and> costPerSecond \<noteq> PInf
      then Math_max (Num 0) (Num 1 - costPerSecond / Num 5) * Num 15
      else Num 15)"

definition compositeScore ::
  "RecommendationInputs \<Rightarrow> Platform \<Rightarrow> Plan \<Rightarrow> OptionRec \<Rightarrow> ModeResult \<Rightarrow> bool \<Rightarrow> real
     \<Rightarrow> jsnum \<Rightarrow> jsnum" where
  "compositeScore inp platform plan opt result feasible' quality costPerSecond =
    (let score = Num 0;
         score = (if feasible' then score + Num 50 else score);
         score = (if Num 1 < mr_accountsNeeded result \<and> feasible'
                  then score - mr_accountsNeeded result * Num 2 else score);
         score = score + Num (expertiseMatch (expertise inp) (techLevel platform));
         score = (case audioNeeds inp of
                    audio_advanced \<Rightarrow> score + Num (if audio opt then 15 else - 25)
                  | audio_basic \<Rightarrow> score + Num (if audio opt then 5 else - 5)
                  | audio_none \<Rightarrow> score);
         score = score + Num ((scoringMaxParallel platform plan (expertise inp) * 0.5)
                                * (speedCost inp / 100));
         qualityWeight = costQuality inp / 100;
         score = score + (costScore costPerSecond * Num (1 - qualityWeight)
                            + Num ((quality / 10 * 15) * qualityWeight));
         score = (if calcMode inp = duration_mode \<and> Num 0 < mr_achievableDuration result
                  then score + Math_min (Num 20) (mr_achievableDuration result / Num 2)
                  else score)
     in score)"

text \<open>The body of the innermost loop: the record pushed for one triple.\<close>

definition scoreTriple ::
  "RecommendationInputs \<Rightarrow> Platform \<Rightarrow> Plan \<Rightarrow> OptionRec \<Rightarrow> ScoredPlatform" where
  "scoreTriple inp platform plan opt =
    (let quality = getQualityScore opt plan platform;
         costPerSecond = calculateCostPerSecondUSD opt plan;
         result = (if calcMode inp = cost_mode then costModeResult inp platform plan opt
                   else durationModeResult inp platform plan opt);
         feasible' = isFeasible (mr_reasons result)
     in \<lparr>sp_platformName = platformName platform, sp_planName = planName plan,
         sp_option = opt,
         score = compositeScore inp platform plan opt result feasible' quality costPerSecond,
         totalCost = mr_totalCost result,
         rawGenerationTimeDays = mr_rawGenerationTimeDays result,
         costPerSecondUSD = costPerSecond, qualityScore = quality,
         feasible = feasible', reasons = mr_reasons result,
         accountsNeeded = mr_accountsNeeded result,
         sp_apiAvailable = apiAvailable platform,
         achievableDuration = mr_achievableDuration result,
         plansAffordable = mr_plansAffordable result,
         sp_monthlyCost = monthlyCost plan\<rparr>)"

text \<open>The three nested loops over the catalogue, in the order of the pushes.\<close>

definition scoredOptions :: "Platform list \<Rightarrow> RecommendationInputs \<Rightarrow> ScoredPlatform list" where
  "scoredOptions catalogue inp =
     concat (map (\<lambda>platform.
       concat (map (\<lambda>plan. map (scoreTriple inp platform plan) (options plan))
                 (plans platform)))
       catalogue)"

subsection \<open>Ranking\<close>

definition compareFn :: "ScoredPlatform \<Rightarrow> ScoredPlatform \<Rightarrow> jsnum" where
  "compareFn a b =
     (if feasible a \<noteq> feasible b then (if feasible a then Num (- 1) else Num 1)
      else score b - score a)"

text \<open>
  \<open>Array.prototype.sort\<close> is stable, and a comparator result that is not greater
  than 0 (negative, zero or \<open>NaN\<close>) leaves the earlier element first. For a
  consistent comparator the result is the one stable sorted permutation, which
  insertion computes.
\<close>

fun insertSorted :: "ScoredPlatform \<Rightarrow> ScoredPlatform list \<Rightarrow> ScoredPlatform list" where
  "insertSorted x [] = [x]"
| "insertSorted x (y # ys) =
     (if Num 0 < compareFn x y then y # insertSorted x ys else x # y # ys)"

definition sortScored :: "ScoredPlatform list \<Rightarrow> ScoredPlatform list" where
  "sortScored xs = foldr insertSorted xs []"

text \<open>\<open>scoredOptions.find(p => p.feasible) || scoredOptions[0] || null\<close>\<close>

definition primaryOf :: "ScoredPlatform list \<Rightarrow> ScoredPlatform option" where
  "primaryOf ranked =
     (case find feasible ranked of
        Some p \<Rightarrow> Some p
      | None \<Rightarrow> (case ranked of [] \<Rightarrow> None | p # _ \<Rightarrow> Some p))"

definition calculateOver :: "Platform list \<Rightarrow> RecommendationInputs \<Rightarrow> Recommendation" where
  "calculateOver catalogue inp =
    (let ranked = sortScored (scoredOptions catalogue inp)
     in \<lparr>primaryRecommendation = primaryOf ranked, sortedPlatforms = ranked\<rparr>)"

definition calculate :: "RecommendationInputs \<Rightarrow> Recommendation" where
  "calculate inp = calculateOver DETAILED_PLATFORM_DATA inp"

subsection \<open>The order asked of the ranked list\<close>

text \<open>
  The specified order, in the spec's words \<open>(feasible desc, score desc)\<close>: a feasible
  record before an infeasible one, and within each group the higher score first.
\<close>

definition ranksAtLeast :: "ScoredPlatform \<Rightarrow> ScoredPlatform \<Rightarrow> bool" where
  "ranksAtLeast a b \<longleftrightarrow>
     (feasible a \<and> \<not> feasible b) \<or> (feasible a = feasible b \<and> score b \<le> score a)"

section \<open>Example inputs\<close>

text \<open>The form's initial inputs: cost mode, 10 minutes in 7 days, a budget of 1000.\<close>

definition scenario :: RecommendationInputs where
  "scenario =
    \<lparr>calcMode = cost_mode, deadline = 7, duration = 10, budget = 1000, costQuality = 50,
     speedCost = 50, audioNeeds = audio_none, expertise = beginner,
     enableComparison = False, traditionalCost = 0, traditionalTime = 0\<rparr>"

definition budget48 :: RecommendationInputs where
  "budget48 = scenario\<lparr>calcMode := duration_mode, budget := 48\<rparr>"



text \<open>A budget below the 20 USD that Kling AI Standard 5s costs for 10 minutes.\<close>

definition budget15 :: RecommendationInputs where
  "budget15 = scenario\<lparr>budget := 15\<rparr>"

text \<open>
  Inputs and a platform outside the data model (a negative deadline and a negative
  setup time), which give the reason that asks for accounts.
\<close>

definition negativeDeadline :: RecommendationInputs where
  "negativeDeadline = scenario\<lparr>deadline := - 2\<rparr>"

definition headStart :: Platform where
  "headStart = Kling_AI\<lparr>setupDays := - 1.5\<rparr>"


text \<open>A budget that pays for one Kling AI plan only.\<close>

definition budget50 :: RecommendationInputs where
  "budget50 = scenario\<lparr>budget := 50\<rparr>"

text \<open>Duration mode with a budget of 50 USD, the other inputs as the form has them.\<close>

definition durationBudget50 :: RecommendationInputs where
  "durationBudget50 = scenario\<lparr>calcMode := duration_mode, budget := 50\<rparr>"


section \<open>Basic facts\<close>

lemma Math_min_PInf [simp]: "Math_min PInf x = x"
  by (cases x) simp_all

lemma scoreTriple_simps:
  "totalCost (scoreTriple inp platform plan opt) =
     mr_totalCost (if calcMode inp = cost_mode then costModeResult inp platform plan opt
                   else durationModeResult inp platform plan opt)"
  "achievableDuration (scoreTriple inp platform plan opt) =
     mr_achievableDuration (if calcMode inp = cost_mode then costModeResult inp platform plan opt
                   else durationModeResult inp platform plan opt)"
  "reasons (scoreTriple inp platform plan opt) =
     mr_reasons (if calcMode inp = cost_mode then costModeResult inp platform plan opt
                   else durationModeResult inp platform plan opt)"
  "feasible (scoreTriple inp platform plan opt) =
     isFeasible (reasons (scoreTriple inp platform plan opt))"
  "costPerSecondUSD (scoreTriple inp platform plan opt) = calculateCostPerSecondUSD opt plan"
  by (simp_all add: scoreTriple_def Let_def)

lemma totalCost_cost_mode:
  "calcMode inp = cost_mode \<Longrightarrow>
     totalCost (scoreTriple inp platform plan opt) = costModeTotalCost (duration inp) plan opt"
  by (simp add: scoreTriple_simps costModeResult_def Let_def)

section \<open>The cost-mode scenario of Kling AI Standard 5s\<close>

text \<open>
  Claim C5. In cost mode with a target of 10 minutes, a plan of 10 USD a month with a
  quota of 660 credits and an option of 10 credits for a clip of at most 5 seconds
  need 120 clips, 1200 credits and \<open>ceil(1200/660) = 2\<close> subscriptions, and the
  record of the triple has a total cost of 20 USD.
\<close>

theorem C5_cost_mode_scenario:
  assumes "calcMode inp = cost_mode" and "duration inp = 10"
    and "monthlyCost plan = 10" and "quota plan = 660" and "quotaUnit plan = qu_credits"
    and "cost opt = Single 10" and "costUnit opt = cu_credits" and "maxDurationSec opt = 5"
  shows "clipsNeeded (duration inp) opt = Num 120
       \<and> totalUnitsNeeded (duration inp) opt = Num 1200
       \<and> plansNeeded (duration inp) plan opt = Num 2
       \<and> totalCost (scoreTriple inp platform plan opt) = Num 20"
proof -
  have clips: "clipsNeeded (duration inp) opt = Num 120"
    using assms by (simp add: clipsNeeded_def)
  have units: "totalUnitsNeeded (duration inp) opt = Num 1200"
    using assms clips by (simp add: totalUnitsNeeded_def)
  have plans: "plansNeeded (duration inp) plan opt = Num 2"
    using assms units by (simp add: plansNeeded_def)
  have "costModeTotalCost (duration inp) plan opt = Num 20"
    using assms plans by (simp add: costModeTotalCost_def)
  then show ?thesis
    using assms clips units plans by (simp add: totalCost_cost_mode)
qed

theorem C5_kling_standard_5s:
  "clipsNeeded (duration scenario) (options (plans Kling_AI ! 0) ! 0) = Num 120
   \<and> totalUnitsNeeded (duration scenario) (options (plans Kling_AI ! 0) ! 0) = Num 1200
   \<and> plansNeeded (duration scenario) (plans Kling_AI ! 0) (options (plans Kling_AI ! 0) ! 0)
       = Num 2
   \<and> totalCost (scoreTriple scenario Kling_AI (plans Kling_AI ! 0)
        (options (plans Kling_AI ! 0) ! 0)) = Num 20"
  using C5_cost_mode_scenario [of scenario "plans Kling_AI ! 0"
      "options (plans Kling_AI ! 0) ! 0" Kling_AI]
  by (simp add: scenario_def Kling_AI_def)

section \<open>Quality score\<close>

lemma lookupOr0_lower:
  assumes "\<forall>(k, v) \<in> set table. lo \<le> v" and "lo \<le> 0"
  shows "lo \<le> lookupOr0 table key"
proof (cases "map_of table key")
  case None
  then show ?thesis using assms by (simp add: lookupOr0_def)
next
  case (Some v)
  then have "(key, v) \<in> set table" by (rule map_of_SomeD)
  with assms Some show ?thesis by (auto simp: lookupOr0_def)
qed

lemma planHierarchy_nonneg: "0 \<le> lookupOr0 planHierarchy key"
  by (rule lookupOr0_lower) (simp_all add: planHierarchy_def)

lemma platformReputation_lower: "- 0.5 \<le> lookupOr0 platformReputation key"
  by (rule lookupOr0_lower) (simp_all add: platformReputation_def)

lemma resolutionScores_lower: "7 \<le> resolutionScores r"
  by (cases r) (simp_all add: resolutionScores_def)

lemma getQualityScore_lower: "6.5 \<le> getQualityScore opt plan platform"
proof -
  have "6.5 \<le> resolutionScores (resolution opt) + lookupOr0 planHierarchy (planName plan)
          + lookupOr0 platformReputation (platformName platform)"
    using resolutionScores_lower [of "resolution opt"] planHierarchy_nonneg [of "planName plan"]
      platformReputation_lower [of "platformName platform"]
    by simp
  then show ?thesis
    by (simp add: getQualityScore_def Let_def)
qed

lemma catalogue_names_not_inherited:
  "\<forall>platform \<in> set DETAILED_PLATFORM_DATA.
     platformName platform \<notin> set inheritedKeys
     \<and> (\<forall>plan \<in> set (plans platform). planName plan \<notin> set inheritedKeys)"
  by (simp add: DETAILED_PLATFORM_DATA_def Kling_AI_def Leonardo_AI_Web_App_def
      Leonardo_AI_API_def LTX_Studio_def OpenAI_Sora_def Google_Veo_def inheritedKeys_def)

text \<open>
  Claim C9, as the code has it. For a plan and a platform whose names are not
  inherited keys, the quality score is at most 10 and nothing clamps it from below;
  all the same it is never negative. The smallest resolution base is 7, the plan
  bonus and the feature bonuses are not negative and the lowest platform reputation
  is \<open>-0.5\<close>, so the score is at least 6.5.
\<close>

theorem C9_quality_bounds:
  assumes "planName plan \<notin> set inheritedKeys"
    and "platformName platform \<notin> set inheritedKeys"
  shows "getQualityScore opt plan platform \<le> 10 \<and> 6.5 \<le> getQualityScore opt plan platform"
proof
  show "getQualityScore opt plan platform \<le> 10"
    by (simp add: getQualityScore_def Let_def)
  show "6.5 \<le> getQualityScore opt plan platform"
    by (rule getQualityScore_lower)
qed

theorem C9_kling_standard_5s:
  "planName (plans Kling_AI ! 0) \<notin> set inheritedKeys
   \<and> platformName Kling_AI \<notin> set inheritedKeys
   \<and> getQualityScore (options (plans Kling_AI ! 0) ! 0) (plans Kling_AI ! 0) Kling_AI = 7.5
   \<and> getQualityScore (options (plans Kling_AI ! 0) ! 0) (plans Kling_AI ! 0) Kling_AI \<le> 10"
proof -
  have n: "planName (plans Kling_AI ! 0) \<notin> set inheritedKeys"
    "platformName Kling_AI \<notin> set inheritedKeys"
    by (simp_all add: inheritedKeys_def Kling_AI_def)
  have v: "getQualityScore (options (plans Kling_AI ! 0) ! 0) (plans Kling_AI ! 0) Kling_AI
      = 7.5"
    by (simp add: getQualityScore_def lookupOr0_def planHierarchy_def platformReputation_def
        hasFeature_def resolutionScores_def Kling_AI_def)
  from C9_quality_bounds [OF n, of "options (plans Kling_AI ! 0) ! 0"] n v
  show ?thesis by simp
qed

text \<open>
  No option, plan and platform with such names give a negative quality score.
\<close>

theorem C9_never_negative:
  "\<not> (\<exists>opt plan platform. planName plan \<notin> set inheritedKeys
        \<and> platformName platform \<notin> set inheritedKeys
        \<and> getQualityScore opt plan platform < 0)"
proof
  assume "\<exists>opt plan platform. planName plan \<notin> set inheritedKeys
        \<and> platformName platform \<notin> set inheritedKeys
        \<and> getQualityScore opt plan platform < 0"
  then obtain opt plan platform where "getQualityScore opt plan platform < 0" by blast
  moreover have "6.5 \<le> getQualityScore opt plan platform"
    by (rule getQualityScore_lower)
  ultimately show False by simp
qed

section \<open>Cost per second\<close>



section \<open>Unlimited flat-fee plans in duration mode\<close>

text \<open>
  Claim C8. In duration mode, on an unlimited plan with an option that is not billed
  per second: a budget of at least the monthly price gives a total cost of exactly
  the monthly price and infinitely many video seconds, so the achievable duration is
  the ceiling the deadline sets, \<open>maxClipsInDeadline * maxDurationSec / 60\<close>; a
  smaller budget gives 0 video seconds.
\<close>

theorem C8_unlimited_flat_fee:
  assumes "calcMode inp = duration_mode" and "quotaUnit plan = qu_unlimited"
    and "costUnit opt \<noteq> cu_per_second"
  shows "(monthlyCost plan \<le> budget inp \<longrightarrow>
            totalCost (scoreTriple inp platform plan opt) = Num (monthlyCost plan)
          \<and> totalVideoSeconds (budgetUse (budget inp) plan opt) = PInf
          \<and> achievableDuration (scoreTriple inp platform plan opt) =
              (maxClipsInDeadline (deadline inp) platform plan (expertise inp)
                 * Num (maxDurationSec opt)) / Num 60)
       \<and> (budget inp < monthlyCost plan \<longrightarrow>
            totalVideoSeconds (budgetUse (budget inp) plan opt) = Num 0)"
  using assms
  by (simp add: scoreTriple_simps durationModeResult_def budgetUse_def Let_def
      maxDurationFromTime_def)

theorem C8_sora_budget48:
  "totalCost (scoreTriple budget48 OpenAI_Sora (plans OpenAI_Sora ! 0)
      (options (plans OpenAI_Sora ! 0) ! 0)) = Num 20
   \<and> achievableDuration (scoreTriple budget48 OpenAI_Sora (plans OpenAI_Sora ! 0)
      (options (plans OpenAI_Sora ! 0) ! 0)) = Num (2240 / 3)
   \<and> totalVideoSeconds (budgetUse (budget budget48) (plans OpenAI_Sora ! 1)
      (options (plans OpenAI_Sora ! 1) ! 0)) = Num 0"
  using C8_unlimited_flat_fee [of budget48 "plans OpenAI_Sora ! 0"
      "options (plans OpenAI_Sora ! 0) ! 0" OpenAI_Sora]
    C8_unlimited_flat_fee [of budget48 "plans OpenAI_Sora ! 1"
      "options (plans OpenAI_Sora ! 1) ! 0" OpenAI_Sora]
  by (simp add: budget48_def scenario_def OpenAI_Sora_def maxClipsInDeadline_def
      effectiveMaxParallel_def canUseAPI_def)

section \<open>Ranked list and reasons: basic facts\<close>

lemma set_insertSorted [simp]: "set (insertSorted x ys) = insert x (set ys)"
  by (induction ys) auto

lemma set_sortScored [simp]: "set (sortScored xs) = set xs"
  by (induction xs) (simp_all add: sortScored_def)

lemma length_insertSorted [simp]: "length (insertSorted x ys) = Suc (length ys)"
  by (induction ys) auto

lemma length_sortScored [simp]: "length (sortScored xs) = length xs"
  by (induction xs) (simp_all add: sortScored_def)

lemma sortedPlatforms_calculateOver:
  "sortedPlatforms (calculateOver catalogue inp) = sortScored (scoredOptions catalogue inp)"
  by (simp add: calculateOver_def Let_def)

lemma primaryRecommendation_calculateOver:
  "primaryRecommendation (calculateOver catalogue inp) =
     primaryOf (sortScored (scoredOptions catalogue inp))"
  by (simp add: calculateOver_def Let_def)

lemma scoredOptions_triple:
  assumes "e \<in> set (scoredOptions catalogue inp)"
  obtains platform plan opt where "platform \<in> set catalogue" and "plan \<in> set (plans platform)"
    and "opt \<in> set (options plan)" and "e = scoreTriple inp platform plan opt"
  using assms by (auto simp: scoredOptions_def)

lemma startsWith_append: "startsWith (sub @ rest) sub"
  by (induction sub) simp_all

lemma includes_str_here: "includes_str (sub @ rest) sub"
  by (cases "sub @ rest") (use startsWith_append [of sub rest] in auto)

lemma includes_str_append: "includes_str s sub \<Longrightarrow> includes_str (pre @ s) sub"
  by (induction pre) simp_all

lemma includes_str_middle: "includes_str (pre @ sub @ rest) sub"
  by (rule includes_str_append) (rule includes_str_here)

lemma requires_accounts: "includes_str (''Requires '' @ n @ '' accounts'') ''accounts''"
  using includes_str_middle [of "''Requires '' @ n @ '' ''" "''accounts''" "[]"] by simp

lemma challenging_accounts:
  "includes_str (''Challenging deadline: needs '' @ n @ '' accounts'') ''accounts''"
  using includes_str_middle [of "''Challenging deadline: needs '' @ n @ '' ''" "''accounts''" "[]"]
  by simp

lemma over_budget_no_accounts: "\<not> includes_str ''Over budget'' ''accounts''"
  by simp

lemma isFeasible_iff:
  "isFeasible rs \<longleftrightarrow> rs = [] \<or> (\<exists>r. rs = [r] \<and> includes_str r ''accounts'')"
  by (cases rs) (auto simp: isFeasible_def)

section \<open>Feasibility policy\<close>

text \<open>
  Claim C1. Every record of the ranked list is feasible exactly when it has no reason,
  or one reason only and that reason mentions accounts. So a record with the reason
  \<open>Over budget\<close> is infeasible whatever else it has, and a record whose only
  reason is the one that asks for N accounts (in either mode's wording) is feasible.
\<close>

theorem C1_feasibility_policy:
  assumes "e \<in> set (sortedPlatforms (calculateOver catalogue inp))"
  shows "(feasible e \<longleftrightarrow>
            reasons e = [] \<or> (\<exists>r. reasons e = [r] \<and> includes_str r ''accounts''))
       \<and> (''Over budget'' \<in> set (reasons e) \<longrightarrow> \<not> feasible e)
       \<and> (reasons e = [''Requires '' @ numToString n @ '' accounts'']
            \<or> reasons e = [''Challenging deadline: needs '' @ numToString n @ '' accounts'']
           \<longrightarrow> feasible e)"
proof -
  from assms have "e \<in> set (scoredOptions catalogue inp)"
    by (simp add: sortedPlatforms_calculateOver)
  then obtain platform plan opt where "e = scoreTriple inp platform plan opt"
    by (rule scoredOptions_triple)
  then have policy: "feasible e \<longleftrightarrow>
      reasons e = [] \<or> (\<exists>r. reasons e = [r] \<and> includes_str r ''accounts'')"
    by (simp add: scoreTriple_simps(4) isFeasible_iff)
  have over: "\<not> feasible e" if "''Over budget'' \<in> set (reasons e)"
  proof
    assume "feasible e"
    with policy that obtain r where "reasons e = [r]" and "includes_str r ''accounts''"
      by auto
    with that have "includes_str ''Over budget'' ''accounts''" by simp
    then show False by simp
  qed
  have accounts: "feasible e"
    if "reasons e = [''Requires '' @ numToString n @ '' accounts'']
      \<or> reasons e = [''Challenging deadline: needs '' @ numToString n @ '' accounts'']"
    using that policy requires_accounts [of "numToString n"]
      challenging_accounts [of "numToString n"]
    by auto
  from policy over accounts show ?thesis by blast
qed

text \<open>
  An over-budget record of the catalogue, and a record whose only reason asks for
  accounts, which a negative deadline and setup time give.
\<close>

lemmas eval_defs = scoreTriple_simps costModeResult_def durationModeResult_def
  costModeTotalCost_def plansNeeded_def totalUnitsNeeded_def clipsNeeded_def
  calculateTimeRequirement_def effectiveMaxParallel_def canUseAPI_def Let_def

theorem C1_over_budget_and_accounts:
  "scoreTriple budget15 Kling_AI (plans Kling_AI ! 0) (options (plans Kling_AI ! 0) ! 0)
     \<in> set (sortedPlatforms (calculateOver [Kling_AI] budget15))
   \<and> reasons (scoreTriple budget15 Kling_AI (plans Kling_AI ! 0) (options (plans Kling_AI ! 0) ! 0)) = [''Over budget'']
   \<and> \<not> feasible (scoreTriple budget15 Kling_AI (plans Kling_AI ! 0) (options (plans Kling_AI ! 0) ! 0))
   \<and> reasons (scoreTriple negativeDeadline headStart (plans headStart ! 0) (options (plans headStart ! 0) ! 0)) = [''Requires 1 accounts'']
   \<and> feasible (scoreTriple negativeDeadline headStart (plans headStart ! 0) (options (plans headStart ! 0) ! 0))"
proof -
  let ?e1 = "scoreTriple budget15 Kling_AI (plans Kling_AI ! 0) (options (plans Kling_AI ! 0) ! 0)"
  let ?e2 = "scoreTriple negativeDeadline headStart (plans headStart ! 0) (options (plans headStart ! 0) ! 0)"
  have m1: "?e1 \<in> set (sortedPlatforms (calculateOver [Kling_AI] budget15))"
    by (simp add: sortedPlatforms_calculateOver scoredOptions_def Kling_AI_def)
  have m2: "?e2 \<in> set (sortedPlatforms (calculateOver [headStart] negativeDeadline))"
    by (simp add: sortedPlatforms_calculateOver scoredOptions_def Kling_AI_def headStart_def)
  have r1: "reasons ?e1 = [''Over budget'']"
    by (simp add: eval_defs budget15_def scenario_def Kling_AI_def)
  have r2: "reasons ?e2 = [''Requires 1 accounts'']"
    by (simp add: eval_defs negativeDeadline_def headStart_def scenario_def Kling_AI_def)
  from C1_feasibility_policy [OF m1, of "Num 1"] C1_feasibility_policy [OF m2, of "Num 1"] m1 r1 r2
  show ?thesis by simp
qed

section \<open>Primary recommendation\<close>

lemma length_scoredOptions_builtin:
  "length (scoredOptions DETAILED_PLATFORM_DATA inp) = 34"
  by (simp add: scoredOptions_def DETAILED_PLATFORM_DATA_def Kling_AI_def
      Leonardo_AI_Web_App_def Leonardo_AI_API_def LTX_Studio_def OpenAI_Sora_def Google_Veo_def)

lemma primaryOf_nonempty:
  "ranked \<noteq> [] \<Longrightarrow>
     primaryOf ranked = Some (case find feasible ranked of Some p \<Rightarrow> p | None \<Rightarrow> ranked ! 0)"
  by (cases ranked) (simp_all add: primaryOf_def split: option.splits)

text \<open>
  Claim C10. Over the built-in catalogue the ranked list is never empty, and the
  primary recommendation is present: it is the first feasible record of the ranked
  list, or the first record when none is feasible.
\<close>

theorem C10_primary_recommendation:
  "sortedPlatforms (calculate inp) \<noteq> []
   \<and> primaryRecommendation (calculate inp) =
       Some (case find feasible (sortedPlatforms (calculate inp)) of
               Some p \<Rightarrow> p
             | None \<Rightarrow> sortedPlatforms (calculate inp) ! 0)"
proof -
  have "length (sortedPlatforms (calculate inp)) = 34"
    by (simp add: calculate_def sortedPlatforms_calculateOver length_scoredOptions_builtin)
  then have ne: "sortedPlatforms (calculate inp) \<noteq> []" by auto
  have "primaryRecommendation (calculate inp) = primaryOf (sortedPlatforms (calculate inp))"
    by (simp add: calculate_def calculateOver_def Let_def)
  with ne show ?thesis by (simp add: primaryOf_nonempty)
qed

section \<open>Accounts reason and feasibility in cost mode\<close>




section \<open>Ranking\<close>

lemma costScore_Num: "\<exists>c. costScore x = Num c"
  by (cases x) (simp_all add: costScore_def)

lemma low_plus_Num: "x \<noteq> NaN \<and> x \<noteq> PInf \<Longrightarrow> x + Num r \<noteq> NaN \<and> x + Num r \<noteq> PInf"
  by (cases x) simp_all

lemma low_minus_accounts:
  "Num 1 < a \<Longrightarrow> Num 50 - a * Num 2 \<noteq> NaN \<and> Num 50 - a * Num 2 \<noteq> PInf"
  by (cases a) simp_all

lemma low_plus_bonus:
  "x \<noteq> NaN \<and> x \<noteq> PInf \<Longrightarrow> Num 0 < a \<Longrightarrow>
     x + Math_min (Num 20) (a / Num 2) \<noteq> NaN \<and> x + Math_min (Num 20) (a / Num 2) \<noteq> PInf"
  by (cases a; cases x) simp_all

lemma compositeScore_low:
  "compositeScore inp platform plan opt result f quality cps \<noteq> NaN
   \<and> compositeScore inp platform plan opt result f quality cps \<noteq> PInf"
proof -
  define s1 where "s1 = (if f then Num 0 + Num 50 else Num 0)"
  define s2 where "s2 = (if Num 1 < mr_accountsNeeded result \<and> f
                  then s1 - mr_accountsNeeded result * Num 2 else s1)"
  define s3 where "s3 = s2 + Num (expertiseMatch (expertise inp) (techLevel platform))"
  define s4 where "s4 = (case audioNeeds inp of
                    audio_advanced \<Rightarrow> s3 + Num (if audio opt then 15 else - 25)
                  | audio_basic \<Rightarrow> s3 + Num (if audio opt then 5 else - 5)
                  | audio_none \<Rightarrow> s3)"
  define s5 where "s5 = s4 + Num ((scoringMaxParallel platform plan (expertise inp) * 0.5)
                                * (speedCost inp / 100))"
  define s6 where "s6 = s5 + (costScore cps * Num (1 - costQuality inp / 100)
                            + Num ((quality / 10 * 15) * (costQuality inp / 100)))"
  define s7 where "s7 = (if calcMode inp = duration_mode \<and> Num 0 < mr_achievableDuration result
                  then s6 + Math_min (Num 20) (mr_achievableDuration result / Num 2)
                  else s6)"
  have eq: "compositeScore inp platform plan opt result f quality cps = s7"
    unfolding compositeScore_def Let_def s7_def s6_def s5_def s4_def s3_def s2_def s1_def
    by (rule refl)
  have l1: "s1 \<noteq> NaN \<and> s1 \<noteq> PInf" by (simp add: s1_def)
  have l2: "s2 \<noteq> NaN \<and> s2 \<noteq> PInf"
    using l1 low_minus_accounts [of "mr_accountsNeeded result"] by (simp add: s2_def s1_def)
  have l3: "s3 \<noteq> NaN \<and> s3 \<noteq> PInf" unfolding s3_def using l2 by (rule low_plus_Num)
  have l4: "s4 \<noteq> NaN \<and> s4 \<noteq> PInf"
    using l3 low_plus_Num [OF l3] by (cases "audioNeeds inp") (simp_all add: s4_def)
  have l5: "s5 \<noteq> NaN \<and> s5 \<noteq> PInf" unfolding s5_def using l4 by (rule low_plus_Num)
  obtain c where c: "costScore cps = Num c" using costScore_Num by blast
  have l6: "s6 \<noteq> NaN \<and> s6 \<noteq> PInf"
    using low_plus_Num [OF l5] by (simp add: s6_def c)
  have l7: "s7 \<noteq> NaN \<and> s7 \<noteq> PInf"
  proof (cases "calcMode inp = duration_mode \<and> Num 0 < mr_achievableDuration result")
    case True
    with low_plus_bonus [OF l6, of "mr_achievableDuration result"] show ?thesis
      by (simp add: s7_def)
  next
    case False
    then have "s7 = s6" by (auto simp: s7_def)
    with l6 show ?thesis by simp
  qed
  with eq show ?thesis by simp
qed

lemma score_not_NaN:
  "e \<in> set (scoredOptions catalogue inp) \<Longrightarrow> score e \<noteq> NaN"
  by (erule scoredOptions_triple) (simp add: scoreTriple_def Let_def compositeScore_low)

lemma minus_pos_iff: "x \<noteq> NaN \<Longrightarrow> y \<noteq> NaN \<Longrightarrow> Num 0 < y - x \<longleftrightarrow> \<not> y \<le> x"
  by (cases x; cases y) auto

lemma jsnum_le_trans:
  fixes x y z :: jsnum
  shows "x \<le> y \<Longrightarrow> y \<le> z \<Longrightarrow> x \<le> z"
  by (cases x; cases y; cases z) simp_all

lemma jsnum_le_total:
  fixes x y :: jsnum
  shows "x \<noteq> NaN \<Longrightarrow> y \<noteq> NaN \<Longrightarrow> \<not> x \<le> y \<Longrightarrow> y \<le> x"
  by (cases x; cases y) simp_all

lemma compareFn_pos_iff:
  assumes "score a \<noteq> NaN" and "score b \<noteq> NaN"
  shows "Num 0 < compareFn a b \<longleftrightarrow> \<not> ranksAtLeast a b"
  using assms minus_pos_iff [of "score a" "score b"]
  by (auto simp: compareFn_def ranksAtLeast_def)

lemma ranksAtLeast_trans:
  "ranksAtLeast a b \<Longrightarrow> ranksAtLeast b c \<Longrightarrow> ranksAtLeast a c"
  using jsnum_le_trans [of "score c" "score b" "score a"]
  by (auto simp: ranksAtLeast_def)

lemma ranksAtLeast_total:
  "score a \<noteq> NaN \<Longrightarrow> score b \<noteq> NaN \<Longrightarrow> \<not> ranksAtLeast a b \<Longrightarrow> ranksAtLeast b a"
  using jsnum_le_total [of "score b" "score a"]
  by (auto simp: ranksAtLeast_def)

lemma sorted_insertSorted:
  assumes "score x \<noteq> NaN" and "\<forall>e \<in> set ys. score e \<noteq> NaN"
    and "sorted_wrt ranksAtLeast ys"
  shows "sorted_wrt ranksAtLeast (insertSorted x ys)"
  using assms
proof (induction ys)
  case Nil
  then show ?case by simp
next
  case (Cons y ys)
  show ?case
  proof (cases "Num 0 < compareFn x y")
    case True
    with Cons.prems have "ranksAtLeast y x"
      by (simp add: compareFn_pos_iff ranksAtLeast_total)
    with True Cons show ?thesis by simp
  next
    case False
    with Cons.prems have xy: "ranksAtLeast x y" by (simp add: compareFn_pos_iff)
    have "ranksAtLeast x z" if "z \<in> set ys" for z
      using xy that Cons.prems(3) ranksAtLeast_trans [of x y z] by simp
    with False xy Cons.prems show ?thesis by simp
  qed
qed

lemma sorted_sortScored:
  "\<forall>e \<in> set xs. score e \<noteq> NaN \<Longrightarrow> sorted_wrt ranksAtLeast (sortScored xs)"
proof (induction xs)
  case Nil
  then show ?case by (simp add: sortScored_def)
next
  case (Cons x xs)
  then have "sorted_wrt ranksAtLeast (sortScored xs)" by simp
  with Cons.prems have "sorted_wrt ranksAtLeast (insertSorted x (sortScored xs))"
    by (intro sorted_insertSorted) simp_all
  then show ?case by (simp add: sortScored_def)
qed

lemma ranked_sorted:
  "sorted_wrt ranksAtLeast (sortedPlatforms (calculateOver catalogue inp))"
  by (simp add: sortedPlatforms_calculateOver sorted_sortScored score_not_NaN)

text \<open>
  Claim C2. In the ranked list of any inputs (over any catalogue, the built-in one
  included) no infeasible record precedes a feasible one, and of two records of the
  same group the earlier has the greater or equal score.
\<close>

theorem C2_ranking:
  assumes "i < j" and "j < length (sortedPlatforms (calculateOver catalogue inp))"
  shows "(feasible (sortedPlatforms (calculateOver catalogue inp) ! j)
            \<longrightarrow> feasible (sortedPlatforms (calculateOver catalogue inp) ! i))
       \<and> (feasible (sortedPlatforms (calculateOver catalogue inp) ! i)
            = feasible (sortedPlatforms (calculateOver catalogue inp) ! j)
          \<longrightarrow> score (sortedPlatforms (calculateOver catalogue inp) ! j)
                \<le> score (sortedPlatforms (calculateOver catalogue inp) ! i))"
proof -
  let ?r = "sortedPlatforms (calculateOver catalogue inp)"
  from ranked_sorted assms have "ranksAtLeast (?r ! i) (?r ! j)"
    by (rule sorted_wrt_nth_less)
  then show ?thesis by (auto simp: ranksAtLeast_def)
qed

lemmas engine_defs = scoredOptions_def sortScored_def scoreTriple_def compositeScore_def
  costScore_def calculateCostPerSecondUSD_def getQualityScore_def lookupOr0_def
  planHierarchy_def platformReputation_def hasFeature_def resolutionScores_def
  expertiseMatch_def scoringMaxParallel_def isFeasible_def compareFn_def costModeResult_def
  costModeTotalCost_def plansNeeded_def totalUnitsNeeded_def clipsNeeded_def
  durationModeResult_def budgetUse_def maxDurationFromTime_def maxClipsInDeadline_def
  calculateTimeRequirement_def effectiveMaxParallel_def canUseAPI_def Let_def

lemma kling_budget50:
  "map (\<lambda>e. (modelId (sp_option e), feasible e, score e))
     (sortedPlatforms (calculateOver [Kling_AI] budget50)) =
   [(''kling-std-5s'', True, Num (7487 / 88)), (''kling-std-10s'', True, Num (7487 / 88)),
    (''kling-prm-5s'', False, Num (147517 / 4000)), (''kling-prm-10s'', False, Num (147517 / 4000)),
    (''kling-pro-5s'', False, Num (72991 / 2000)), (''kling-pro-10s'', False, Num (72991 / 2000))]"
  by (simp add: sortedPlatforms_calculateOver engine_defs Kling_AI_def budget50_def scenario_def)

theorem C2_kling_budget50:
  "length (sortedPlatforms (calculateOver [Kling_AI] budget50)) = 6
   \<and> feasible (sortedPlatforms (calculateOver [Kling_AI] budget50) ! 1)
   \<and> \<not> feasible (sortedPlatforms (calculateOver [Kling_AI] budget50) ! 2)
   \<and> score (sortedPlatforms (calculateOver [Kling_AI] budget50) ! 2) = Num (147517 / 4000)
   \<and> score (sortedPlatforms (calculateOver [Kling_AI] budget50) ! 4) = Num (72991 / 2000)
   \<and> score (sortedPlatforms (calculateOver [Kling_AI] budget50) ! 4)
       \<le> score (sortedPlatforms (calculateOver [Kling_AI] budget50) ! 2)"
proof -
  let ?r = "sortedPlatforms (calculateOver [Kling_AI] budget50)"
  have len: "length ?r = 6"
    using arg_cong [OF kling_budget50, of length] by simp
  have nth: "(modelId (sp_option (?r ! k)), feasible (?r ! k), score (?r ! k)) =
      [(''kling-std-5s'', True, Num (7487 / 88)), (''kling-std-10s'', True, Num (7487 / 88)),
       (''kling-prm-5s'', False, Num (147517 / 4000)),
       (''kling-prm-10s'', False, Num (147517 / 4000)),
       (''kling-pro-5s'', False, Num (72991 / 2000)),
       (''kling-pro-10s'', False, Num (72991 / 2000))] ! k" if "k < 6" for k
    using that len nth_map [of k ?r "\<lambda>e. (modelId (sp_option e), feasible e, score e)"]
    by (simp add: kling_budget50)
  from C2_ranking [of 1 2 "[Kling_AI]" budget50] C2_ranking [of 2 4 "[Kling_AI]" budget50]
    len nth [of 1] nth [of 2] nth [of 4]
  show ?thesis by simp
qed

section \<open>Zero quota without the unlimited unit\<close>










section \<open>Round trip between duration mode and cost mode\<close>

text \<open>
  Claim C4 asks that the duration which duration mode finds achievable for a budget
  costs, in cost mode, at most that budget (quota-based plan, option not billed by
  ratio, positive average cost). The engine does not do so. For Leonardo AI (Web App),
  plan Apprentice, Motion 1.0 and a budget of 50 USD, duration mode pays for 5 plans,
  42500 tokens, that is 944.4 clips and 425/9 minutes; cost mode rounds that duration
  up to 945 clips, 42525 tokens, and asks for 6 plans: 60 USD.
\<close>

theorem C4_round_trip_over_budget:
  "quotaUnit (plans Leonardo_AI_Web_App ! 0) = qu_tokens
   \<and> quota (plans Leonardo_AI_Web_App ! 0) = 8500
   \<and> monthlyCost (plans Leonardo_AI_Web_App ! 0) = 10
   \<and> costUnit (options (plans Leonardo_AI_Web_App ! 0) ! 0) = cu_tokens
   \<and> getAverage (cost (options (plans Leonardo_AI_Web_App ! 0) ! 0)) = 45
   \<and> budget durationBudget50 = 50
   \<and> plansAffordable (scoreTriple durationBudget50 Leonardo_AI_Web_App
        (plans Leonardo_AI_Web_App ! 0) (options (plans Leonardo_AI_Web_App ! 0) ! 0))
       = Some (Num 5)
   \<and> achievableDuration (scoreTriple durationBudget50 Leonardo_AI_Web_App
        (plans Leonardo_AI_Web_App ! 0) (options (plans Leonardo_AI_Web_App ! 0) ! 0))
       = Num (425 / 9)
   \<and> clipsNeeded (425 / 9) (options (plans Leonardo_AI_Web_App ! 0) ! 0) = Num 945
   \<and> plansNeeded (425 / 9) (plans Leonardo_AI_Web_App ! 0)
        (options (plans Leonardo_AI_Web_App ! 0) ! 0) = Num 6
   \<and> totalCost (scoreTriple (durationBudget50\<lparr>calcMode := cost_mode, duration := 425 / 9\<rparr>)
        Leonardo_AI_Web_App (plans Leonardo_AI_Web_App ! 0)
        (options (plans Leonardo_AI_Web_App ! 0) ! 0)) = Num 60
   \<and> \<not> Num 60 \<le> Num (budget durationBudget50)"
  by (simp add: engine_defs scoreTriple_simps Leonardo_AI_Web_App_def durationBudget50_def
      scenario_def)

end
